theory Spec2Isabelle
  imports Main
begin

section \<open>Exceptions\<close>

text \<open>
  The program tells its failures apart by exception class: \<^verbatim>\<open>except\<close> clauses are tried
  in order, and a clause catches an exception whose class is the named class or one of
  its subclasses. The classes below are the ones the program names, plus the ones the
  library calls it makes can raise. \<open>NotModelled\<close> is not a Python class: it is the
  outcome of a library model on an input outside the fragment it covers. No handler
  catches it, so it surfaces unchanged in the result of every function.
\<close>

datatype exc_class =
    BaseException | PyException | KeyboardInterrupt
  | ValueError | JSONDecodeError | UnicodeDecodeError
  | SyntaxError | TypeError | RecursionError | MemoryError
  | OSError | FileNotFoundError | PermissionError | CsvError | KeyError
  | NotModelled

text \<open>
  The class itself followed by its base classes among the classes above, in the order of
  Python's \<^verbatim>\<open>__mro__\<close>. \<open>PyException\<close> is Python's \<^verbatim>\<open>Exception\<close>; \<^verbatim>\<open>json.JSONDecodeError\<close> is
  declared in the \<^verbatim>\<open>json\<close> package as a subclass of \<^verbatim>\<open>ValueError\<close>.
\<close>

fun mro :: "exc_class \<Rightarrow> exc_class list" where
  "mro BaseException = [BaseException]"
| "mro PyException = [PyException, BaseException]"
| "mro KeyboardInterrupt = [KeyboardInterrupt, BaseException]"
| "mro ValueError = [ValueError, PyException, BaseException]"
| "mro JSONDecodeError = [JSONDecodeError, ValueError, PyException, BaseException]"
| "mro UnicodeDecodeError = [UnicodeDecodeError, ValueError, PyException, BaseException]"
| "mro SyntaxError = [SyntaxError, PyException, BaseException]"
| "mro TypeError = [TypeError, PyException, BaseException]"
| "mro RecursionError = [RecursionError, PyException, BaseException]"
| "mro MemoryError = [MemoryError, PyException, BaseException]"
| "mro OSError = [OSError, PyException, BaseException]"
| "mro FileNotFoundError = [FileNotFoundError, OSError, PyException, BaseException]"
| "mro PermissionError = [PermissionError, OSError, PyException, BaseException]"
| "mro CsvError = [CsvError, PyException, BaseException]"
| "mro KeyError = [KeyError, PyException, BaseException]"
| "mro NotModelled = [NotModelled]"

text \<open>An exception: its class and the text \<^verbatim>\<open>str(e)\<close> gives.\<close>

datatype exn = Exn (cls: exc_class) (str_exc: string)

definition isinstance :: "exn \<Rightarrow> exc_class \<Rightarrow> bool" where
  "isinstance e c = (c \<in> set (mro (cls e)))"

section \<open>Strings\<close>

abbreviation sq :: char where "sq \<equiv> CHR 0x27"
abbreviation dq :: char where "dq \<equiv> CHR 0x22"

text \<open>
  A Python \<^verbatim>\<open>str\<close> is modelled as a list of characters with code points below 256.
  \<open>str.strip()\<close> without argument removes leading and trailing whitespace; for these code
  points that is 9 to 13, 28 to 32, 133 and 160.
\<close>

definition py_isspace :: "char \<Rightarrow> bool" where
  "py_isspace c = (let n = (of_char c :: nat) in
     (9 \<le> n \<and> n \<le> 13) \<or> (28 \<le> n \<and> n \<le> 32) \<or> n = 133 \<or> n = 160)"

definition strip :: "string \<Rightarrow> string" where
  "strip s = rev (dropWhile py_isspace (rev (dropWhile py_isspace s)))"

definition startswith :: "string \<Rightarrow> string \<Rightarrow> bool" where
  "startswith s p = (take (length p) s = p)"

definition endswith :: "string \<Rightarrow> string \<Rightarrow> bool" where
  "endswith s p = (length p \<le> length s \<and> drop (length s - length p) s = p)"

text \<open>The slice \<^verbatim>\<open>s[1:-1]\<close>: empty when \<open>s\<close> has fewer than two characters.\<close>

definition slice_1_m1 :: "string \<Rightarrow> string" where
  "slice_1_m1 s = drop 1 (take (length s - 1) s)"

section \<open>The library calls of the validator\<close>

text \<open>
  \<^verbatim>\<open>ast.literal_eval\<close>, \<^verbatim>\<open>json.dumps\<close> and \<^verbatim>\<open>json.loads\<close> belong to Python's standard
  library, not to this program. The program's functions take them as a parameter: each
  either returns a value or raises an exception. \<open>'v\<close> is the type of Python objects a
  literal evaluates to, \<open>'j\<close> the type of what \<^verbatim>\<open>json.loads\<close> returns.
\<close>

record ('v, 'j) stdlib =
  ast_literal_eval :: "string \<Rightarrow> exn + 'v"
  json_dumps :: "'v \<Rightarrow> exn + string"
  json_loads :: "string \<Rightarrow> exn + 'j"

section \<open>The validator\<close>

text \<open>
  \<^verbatim>\<open>preprocess_json_string\<close>: both library calls are inside the \<^verbatim>\<open>try\<close>; a \<^verbatim>\<open>ValueError\<close>
  or \<^verbatim>\<open>SyntaxError\<close> (or a subclass) from either is replaced by a \<^verbatim>\<open>ValueError\<close> with the
  prefixed text, any other exception propagates.
\<close>

definition preprocess_json_string :: "('v, 'j) stdlib \<Rightarrow> string \<Rightarrow> exn + string" where
  "preprocess_json_string L json_str =
    (let s = strip json_str;
         s' = (if startswith s [sq] \<and> endswith s [sq] then slice_1_m1 s else s)
     in case (case ast_literal_eval L s' of
                Inl e \<Rightarrow> Inl e
              | Inr python_obj \<Rightarrow> json_dumps L python_obj) of
          Inr r \<Rightarrow> Inr r
        | Inl e \<Rightarrow>
            if isinstance e ValueError \<or> isinstance e SyntaxError
            then Inl (Exn ValueError (''Failed to process string: '' @ str_exc e))
            else Inl e)"

text \<open>
  \<^verbatim>\<open>is_valid_json\<close>. The driver passes what \<^verbatim>\<open>csv.DictReader\<close> stored for the field, which
  is \<^verbatim>\<open>None\<close> for a short row, so the argument is an optional string; \<^verbatim>\<open>not json_str\<close>
  holds for \<^verbatim>\<open>None\<close> and for the empty string. The two \<^verbatim>\<open>except\<close> clauses are tried in
  the order of the source. An exception neither clause catches leaves the function.
\<close>

definition is_valid_json :: "('v, 'j) stdlib \<Rightarrow> string option \<Rightarrow> exn + (bool \<times> string)" where
  "is_valid_json L json_str =
    (case json_str of
       None \<Rightarrow> Inr (False, ''Empty string'')
     | Some s \<Rightarrow>
         if s = [] then Inr (False, ''Empty string'')
         else (case (case preprocess_json_string L s of
                       Inl e \<Rightarrow> Inl e
                     | Inr processed_str \<Rightarrow> json_loads L processed_str) of
                 Inr _ \<Rightarrow> Inr (True, [])
               | Inl e \<Rightarrow>
                   if isinstance e ValueError
                   then Inr (False, ''Preprocessing error: '' @ str_exc e)
                   else if isinstance e JSONDecodeError
                   then Inr (False, ''JSON decode error: '' @ str_exc e)
                   else Inl e))"

section \<open>The row driver\<close>

text \<open>Decimal text of a natural number, as \<^verbatim>\<open>str\<close> and the f-strings give it.\<close>

definition digit_char :: "nat \<Rightarrow> char" where
  "digit_char d = ''0123456789'' ! d"

fun str_nat :: "nat \<Rightarrow> string" where
  "str_nat n = (if n < 10 then [digit_char n] else str_nat (n div 10) @ [digit_char (n mod 10)])"

declare str_nat.simps [simp del]

text \<open>\<^verbatim>\<open>sep.join(xs)\<close>, for lists of any kind of element.\<close>

fun join :: "'a list \<Rightarrow> 'a list list \<Rightarrow> 'a list" where
  "join sep [] = []"
| "join sep [x] = x"
| "join sep (x # y # ys) = x @ sep @ join sep (y # ys)"

text \<open>How an f-string shows the field value: \<^verbatim>\<open>None\<close> prints as the text None.\<close>

fun format_value :: "string option \<Rightarrow> string" where
  "format_value None = ''None''"
| "format_value (Some s) = s"

text \<open>
  The file system and \<^verbatim>\<open>csv.reader\<close> under the registered dialect are outside the
  program. \<open>open_csv\<close> stands for both: opening a path raises, or gives the results of the
  successive \<^verbatim>\<open>next\<close> calls on the reader, each a row (a list of cells) or an exception
  (a decoding error, a \<^verbatim>\<open>csv.Error\<close>); after the last one the reader is exhausted.

  \<^verbatim>\<open>csv.DictReader\<close> takes the first row as the field names, skips rows without cells,
  and turns each other row into a dictionary: the field names are paired with the cells
  in order, a later pair replacing an earlier one with the same name, and every field
  name from position \<open>len(row)\<close> on is then set to \<^verbatim>\<open>None\<close>. Cells beyond the header are
  stored under the key \<^verbatim>\<open>None\<close>, which no field name (a string) equals, so they are left
  out here.
\<close>

type_synonym csv_events = "(exn + string list) list"

definition dict_row :: "string list \<Rightarrow> string list \<Rightarrow> (string \<rightharpoonup> string option)" where
  "dict_row fieldnames row =
     fold (\<lambda>key d. d(key \<mapsto> None)) (drop (length row) fieldnames)
       (fold (\<lambda>(key, cell) d. d(key \<mapsto> Some cell)) (zip fieldnames row) Map.empty)"

record run_state =
  good_rows :: nat
  bad_rows :: nat
  printed :: "string list"

text \<open>
  The body of the \<^verbatim>\<open>for\<close> loop for one dictionary row at line \<open>line_num\<close>. The result is
  the state after the body and the exception that left it, if any: \<^verbatim>\<open>row[field_name]\<close>
  raises \<^verbatim>\<open>KeyError\<close> on a missing key, and \<^verbatim>\<open>is_valid_json\<close> lets through what it does
  not catch.
\<close>

definition process_row ::
  "('v, 'j) stdlib \<Rightarrow> string \<Rightarrow> nat \<Rightarrow> (string \<rightharpoonup> string option) \<Rightarrow> run_state
     \<Rightarrow> run_state \<times> exn option" where
  "process_row L field_name line_num row st =
     (case row field_name of
        None \<Rightarrow> (st, Some (Exn KeyError ([sq] @ field_name @ [sq])))
      | Some json_str \<Rightarrow>
          (case is_valid_json L json_str of
             Inl e \<Rightarrow> (st, Some e)
           | Inr (is_valid, error) \<Rightarrow>
               if \<not> is_valid
               then (st\<lparr>bad_rows := bad_rows st + 1,
                        printed := printed st @
                          [''Line '' @ str_nat line_num @ '': Invalid JSON'',
                           ''Content: '' @ format_value json_str,
                           ''Error: '' @ error,
                           replicate 50 (CHR ''-'')]\<rparr>, None)
               else (st\<lparr>good_rows := good_rows st + 1\<rparr>, None)))"

text \<open>
  The \<^verbatim>\<open>for\<close> loop over \<^verbatim>\<open>enumerate(reader, start=2)\<close>: rows without cells are skipped by
  the reader and do not advance the line counter.
\<close>

fun run_rows ::
  "('v, 'j) stdlib \<Rightarrow> string list \<Rightarrow> string \<Rightarrow> nat \<Rightarrow> csv_events \<Rightarrow> run_state
     \<Rightarrow> run_state \<times> exn option" where
  "run_rows L fieldnames field_name line_num [] st = (st, None)"
| "run_rows L fieldnames field_name line_num (Inl e # evs) st = (st, Some e)"
| "run_rows L fieldnames field_name line_num (Inr row # evs) st =
     (if row = [] then run_rows L fieldnames field_name line_num evs st
      else (case process_row L field_name line_num (dict_row fieldnames row) st of
              (st', Some e) \<Rightarrow> (st', Some e)
            | (st', None) \<Rightarrow> run_rows L fieldnames field_name (line_num + 1) evs st'))"

text \<open>
  The outcome of a run: the final counters and printed lines, and the exception that
  left \<^verbatim>\<open>validate_csv_json_field\<close>, if any.
\<close>

record run_result = run_state +
  escaped :: "exn option"

definition print_line :: "run_state \<Rightarrow> string \<Rightarrow> run_state" where
  "print_line st line = st\<lparr>printed := printed st @ [line]\<rparr>"

definition finish :: "run_state \<Rightarrow> exn option \<Rightarrow> run_result" where
  "finish st x =
     \<lparr>good_rows = good_rows st, bad_rows = bad_rows st, printed = printed st, escaped = x\<rparr>"

text \<open>
  The two \<^verbatim>\<open>except\<close> clauses around the whole body, in the order of the source. An
  exception that is not an instance of \<^verbatim>\<open>Exception\<close> leaves the function.
\<close>

definition handle_exc :: "string \<Rightarrow> exn \<Rightarrow> run_state \<Rightarrow> run_result" where
  "handle_exc csv_file e st =
     (if isinstance e FileNotFoundError
      then finish (print_line st (''Error: File '' @ [sq] @ csv_file @ [sq] @ '' not found'')) None
      else if isinstance e PyException
      then finish (print_line st (''Error processing file: '' @ str_exc e)) None
      else finish st (Some e))"

text \<open>
  \<^verbatim>\<open>validate_csv_json_field\<close>. \<^verbatim>\<open>reader.fieldnames\<close> reads the first row; on a file without
  rows it is \<^verbatim>\<open>None\<close>, and the membership test raises \<^verbatim>\<open>TypeError\<close>. The summary is
  printed inside the \<^verbatim>\<open>try\<close>, after the loop has ended without an exception.
\<close>

definition validate_csv_json_field ::
  "('v, 'j) stdlib \<Rightarrow> (string \<Rightarrow> exn + csv_events) \<Rightarrow> string \<Rightarrow> string \<Rightarrow> run_result" where
  "validate_csv_json_field L open_csv csv_file field_name =
     (let st0 = \<lparr>good_rows = 0, bad_rows = 0, printed = []\<rparr> in
      case open_csv csv_file of
        Inl e \<Rightarrow> handle_exc csv_file e st0
      | Inr [] \<Rightarrow>
          handle_exc csv_file
            (Exn TypeError ''argument of type 'NoneType' is not iterable'') st0
      | Inr (Inl e # evs) \<Rightarrow> handle_exc csv_file e st0
      | Inr (Inr fieldnames # evs) \<Rightarrow>
          if field_name \<notin> set fieldnames
          then finish (print_line st0
                 (''Error: Field '' @ [sq] @ field_name @ [sq] @
                  '' not found in CSV. Available fields: '' @ join '', '' fieldnames)) None
          else (case run_rows L fieldnames field_name 2 evs st0 of
                  (st, Some e) \<Rightarrow> handle_exc csv_file e st
                | (st, None) \<Rightarrow>
                    finish (print_line st
                      (''Validation complete. '' @ str_nat (good_rows st) @
                       '' valid rows, '' @ str_nat (bad_rows st) @ '' invalid rows'')) None))"

section \<open>A model of the three library calls\<close>

text \<open>
  What the validator answers on a given text is decided by \<^verbatim>\<open>ast.literal_eval\<close>,
  \<^verbatim>\<open>json.dumps\<close> and \<^verbatim>\<open>json.loads\<close>. This section models CPython's three functions on a
  fragment: texts of printable ASCII made of decimal integers, quoted strings with the
  escapes for backslash, both quotes, newline, carriage return and tab, names, lists of
  these in square brackets and set displays in braces, nested up to \<open>max_depth\<close>. On every
  other text the model answers \<open>NotModelled\<close> and says nothing about CPython.

  Where the model gives an exception, its class is CPython's. Its text is not: CPython
  appends the position and the identity of the offending node, and the wording of a
  syntax error changes with the version and with which of several errors is reported.
  The model gives every \<^verbatim>\<open>SyntaxError\<close> the text \<open>invalid syntax\<close> and every malformed
  node the text \<open>malformed node or string\<close>, with which CPython's text begins. The text of
  the \<^verbatim>\<open>TypeError\<close> for an unhashable set element is CPython's.
\<close>

datatype pyobj = PInt int | PStr string | PBool bool | PNone | PList "pyobj list"

definition not_modelled :: "exn + 'a" where
  "not_modelled = Inl (Exn NotModelled ''outside the modelled fragment'')"

definition syntax_error :: exn where
  "syntax_error = Exn SyntaxError ''invalid syntax''"

definition code :: "char \<Rightarrow> nat" where
  "code c = of_char c"

definition is_digit :: "char \<Rightarrow> bool" where
  "is_digit c = (48 \<le> code c \<and> code c \<le> 57)"

definition is_letter :: "char \<Rightarrow> bool" where
  "is_letter c = ((65 \<le> code c \<and> code c \<le> 90) \<or> (97 \<le> code c \<and> code c \<le> 122))"

definition is_printable :: "char \<Rightarrow> bool" where
  "is_printable c = (32 \<le> code c \<and> code c \<le> 126)"

abbreviation backslash :: char where "backslash \<equiv> CHR 0x5C"
abbreviation tab :: char where "tab \<equiv> CHR 0x09"
abbreviation newline :: char where "newline \<equiv> CHR 0x0A"
abbreviation carriage_return :: char where "carriage_return \<equiv> CHR 0x0D"

definition nat_of_digits :: "string \<Rightarrow> nat" where
  "nat_of_digits ds = foldl (\<lambda>a c. 10 * a + (code c - 48)) 0 ds"

text \<open>
  CPython 3.11 and later refuse to convert between \<^verbatim>\<open>int\<close> and decimal text beyond
  4300 digits; earlier versions do not. The model leaves such integers out.
\<close>

definition max_str_digits :: nat where
  "max_str_digits = 4300"

text \<open>
  CPython's tokenizer refuses more than 200 open brackets, and older parsers run out of
  stack before that. The model leaves nesting beyond \<open>max_depth\<close> out.
\<close>

definition max_depth :: nat where
  "max_depth = 64"

subsection \<open>Tokens of a Python literal\<close>

text \<open>
  \<open>TBad\<close> stands for a piece of text the tokenizer rejects: CPython raises the error
  when it reaches that piece, so what comes before it is parsed first.
\<close>

datatype tok =
    TLBrack | TRBrack | TLBrace | TRBrace | TComma | TMinus
  | TInt nat | TStr string | TName string | TBad exn

text \<open>
  The reserved words of Python 3 other than \<^verbatim>\<open>True\<close>, \<^verbatim>\<open>False\<close> and \<^verbatim>\<open>None\<close>: a text that
  contains one is outside the fragment.
\<close>

definition py_keywords :: "string list" where
  "py_keywords = [''and'', ''as'', ''assert'', ''async'', ''await'', ''break'', ''class'',
     ''continue'', ''def'', ''del'', ''elif'', ''else'', ''except'', ''finally'', ''for'',
     ''from'', ''global'', ''if'', ''import'', ''in'', ''is'', ''lambda'', ''nonlocal'',
     ''not'', ''or'', ''pass'', ''raise'', ''return'', ''try'', ''while'', ''with'',
     ''yield'']"

text \<open>
  The tokenizer reads one character at a time. Its state: between tokens, inside an
  integer, inside a name, inside a string opened by a given quote (with the characters
  read so far), after a backslash inside such a string, or just after an empty string
  (a third quote there would open a triple-quoted string). Tokens are collected in
  reverse.
\<close>

datatype lstate =
    LStart | LInt string | LName string | LStr char string | LEsc char string | LEmpty char

text \<open>
  A character that starts a token. Whitespace before the first token is left out:
  \<^verbatim>\<open>literal_eval\<close> strips it since 3.10 and fails on it before.
\<close>

definition start_step :: "tok list \<Rightarrow> char \<Rightarrow> exn + (lstate \<times> tok list)" where
  "start_step acc c =
     (if c = CHR '' '' \<or> c = tab then (if acc = [] then not_modelled else Inr (LStart, acc))
      else if c = CHR ''['' then Inr (LStart, TLBrack # acc)
      else if c = CHR '']'' then Inr (LStart, TRBrack # acc)
      else if c = CHR ''{'' then Inr (LStart, TLBrace # acc)
      else if c = CHR ''}'' then Inr (LStart, TRBrace # acc)
      else if c = CHR '','' then Inr (LStart, TComma # acc)
      else if c = CHR ''-'' then Inr (LStart, TMinus # acc)
      else if is_digit c then Inr (LInt [c], acc)
      else if is_letter c \<or> c = CHR ''_'' then Inr (LName [c], acc)
      else if c = sq \<or> c = dq then Inr (LStr c [], acc)
      else not_modelled)"

text \<open>The characters after which an integer or a name is known to have ended.\<close>

definition is_delim :: "char \<Rightarrow> bool" where
  "is_delim c = (c = CHR '' '' \<or> c = tab \<or> c = CHR ''['' \<or> c = CHR '']'' \<or> c = CHR ''}'' \<or>
     c = CHR '','' \<or> c = CHR ''-'')"

text \<open>
  A decimal integer literal with a leading zero is a syntax error unless all its digits
  are zero.
\<close>

definition emit_int :: "string \<Rightarrow> tok list \<Rightarrow> exn + tok list" where
  "emit_int ds acc =
     (if max_str_digits < length ds then not_modelled
      else if 1 < length ds \<and> hd ds = CHR ''0'' \<and> nat_of_digits ds \<noteq> 0
      then Inr (TBad syntax_error # acc)
      else Inr (TInt (nat_of_digits ds) # acc))"

definition emit_name :: "string \<Rightarrow> tok list \<Rightarrow> exn + tok list" where
  "emit_name w acc = (if w \<in> set py_keywords then not_modelled else Inr (TName w # acc))"

definition unescape :: "char \<Rightarrow> char option" where
  "unescape c =
     (if c = backslash then Some backslash
      else if c = sq then Some sq
      else if c = dq then Some dq
      else if c = CHR ''n'' then Some newline
      else if c = CHR ''r'' then Some carriage_return
      else if c = CHR ''t'' then Some tab
      else None)"

fun lex_step :: "lstate \<Rightarrow> tok list \<Rightarrow> char \<Rightarrow> exn + (lstate \<times> tok list)" where
  "lex_step LStart acc c = start_step acc c"
| "lex_step (LInt ds) acc c =
     (if is_digit c then Inr (LInt (ds @ [c]), acc)
      else if is_delim c
      then (case emit_int ds acc of Inl e \<Rightarrow> Inl e | Inr acc' \<Rightarrow> start_step acc' c)
      else not_modelled)"
| "lex_step (LName w) acc c =
     (if is_letter c \<or> c = CHR ''_'' \<or> is_digit c then Inr (LName (w @ [c]), acc)
      else if is_delim c
      then (case emit_name w acc of Inl e \<Rightarrow> Inl e | Inr acc' \<Rightarrow> start_step acc' c)
      else not_modelled)"
| "lex_step (LStr q s) acc c =
     (if c = q then (if s = [] then Inr (LEmpty q, acc) else Inr (LStart, TStr s # acc))
      else if c = backslash then Inr (LEsc q s, acc)
      else if is_printable c then Inr (LStr q (s @ [c]), acc)
      else not_modelled)"
| "lex_step (LEsc q s) acc c =
     (case unescape c of None \<Rightarrow> not_modelled | Some d \<Rightarrow> Inr (LStr q (s @ [d]), acc))"
| "lex_step (LEmpty q) acc c =
     (if c = q then not_modelled else start_step (TStr [] # acc) c)"

text \<open>The end of the text: a string still open is rejected.\<close>

fun lex_end :: "lstate \<Rightarrow> tok list \<Rightarrow> exn + tok list" where
  "lex_end LStart acc = Inr acc"
| "lex_end (LInt ds) acc = emit_int ds acc"
| "lex_end (LName w) acc = emit_name w acc"
| "lex_end (LStr q s) acc = Inr (TBad syntax_error # acc)"
| "lex_end (LEsc q s) acc = Inr (TBad syntax_error # acc)"
| "lex_end (LEmpty q) acc = Inr (TStr [] # acc)"

fun lex_run :: "lstate \<Rightarrow> tok list \<Rightarrow> string \<Rightarrow> exn + tok list" where
  "lex_run st acc [] = lex_end st acc"
| "lex_run st acc (c # cs) =
     (case lex_step st acc c of Inl e \<Rightarrow> Inl e | Inr (st', acc') \<Rightarrow> lex_run st' acc' cs)"

definition tokenize :: "string \<Rightarrow> exn + tok list" where
  "tokenize s = (case lex_run LStart [] s of Inl e \<Rightarrow> Inl e | Inr acc \<Rightarrow> Inr (rev acc))"

subsection \<open>Parsing and evaluating a Python literal\<close>

text \<open>The syntax tree: a name is syntax, but not a literal.\<close>

datatype pyast =
    AInt int | AStr string | ABool bool | ANone | AName string
  | AList "pyast list" | ASet "pyast list"

definition name_ast :: "string \<Rightarrow> pyast" where
  "name_ast w =
     (if w = ''True'' then ABool True
      else if w = ''False'' then ABool False
      else if w = ''None'' then ANone
      else AName w)"

text \<open>
  The parser keeps the items of every open list and set display on a stack, innermost
  first. It either expects an expression, has read a minus sign, or has a complete
  expression in hand. A closing bracket where an expression is expected ends an empty
  list or follows a trailing comma. Outside the fragment: a comma after a complete
  expression outside any bracket (a tuple), empty braces (a dictionary), and a closing
  bracket of the other kind.
\<close>

datatype bracket = Square | Curly

datatype pmode = Expect | Minus | Have pyast

type_synonym pstack = "(bracket \<times> pyast list) list"

fun parse_step :: "pstack \<Rightarrow> pmode \<Rightarrow> tok \<Rightarrow> exn + (pstack \<times> pmode)" where
  "parse_step stk m (TBad e) = Inl e"
| "parse_step stk Expect TLBrack =
     (if max_depth \<le> length stk then not_modelled else Inr ((Square, []) # stk, Expect))"
| "parse_step stk Expect TLBrace =
     (if max_depth \<le> length stk then not_modelled else Inr ((Curly, []) # stk, Expect))"
| "parse_step [] m TRBrack = Inl syntax_error"
| "parse_step [] m TRBrace = Inl syntax_error"
| "parse_step ((Square, items) # stk) Expect TRBrack = Inr (stk, Have (AList items))"
| "parse_step ((Curly, items) # stk) Expect TRBrace =
     (if items = [] then not_modelled else Inr (stk, Have (ASet items)))"
| "parse_step stk Expect TComma = Inl syntax_error"
| "parse_step stk Expect TMinus = Inr (stk, Minus)"
| "parse_step stk Expect (TInt n) = Inr (stk, Have (AInt (int n)))"
| "parse_step stk Expect (TStr s) = Inr (stk, Have (AStr s))"
| "parse_step stk Expect (TName w) = Inr (stk, Have (name_ast w))"
| "parse_step stk Minus (TInt n) = Inr (stk, Have (AInt (- int n)))"
| "parse_step ((Square, items) # stk) (Have v) TRBrack = Inr (stk, Have (AList (items @ [v])))"
| "parse_step ((Curly, items) # stk) (Have v) TRBrace = Inr (stk, Have (ASet (items @ [v])))"
| "parse_step ((b, items) # stk) (Have v) TComma = Inr ((b, items @ [v]) # stk, Expect)"
| "parse_step stk m t = not_modelled"

fun parse_end :: "pstack \<Rightarrow> pmode \<Rightarrow> exn + pyast" where
  "parse_end [] (Have v) = Inr v"
| "parse_end stk m = Inl syntax_error"

fun parse_run :: "pstack \<Rightarrow> pmode \<Rightarrow> tok list \<Rightarrow> exn + pyast" where
  "parse_run stk m [] = parse_end stk m"
| "parse_run stk m (t # ts) =
     (case parse_step stk m t of Inl e \<Rightarrow> Inl e | Inr (stk', m') \<Rightarrow> parse_run stk' m' ts)"

text \<open>
  \<^verbatim>\<open>literal_eval\<close> walks the tree from left to right and raises \<^verbatim>\<open>ValueError\<close> at the
  first node that is not a literal. For a set display it evaluates and hashes one element
  after the other: a list is not hashable, which is a \<^verbatim>\<open>TypeError\<close>. A set whose elements
  are all hashable is a value the model does not represent.
\<close>

fun unhashable :: "pyobj \<Rightarrow> bool" where
  "unhashable (PList xs) = True"
| "unhashable v = False"

fun convert :: "pyast \<Rightarrow> exn + pyobj"
  and convert_list :: "pyast list \<Rightarrow> exn + pyobj list"
  and convert_set :: "pyast list \<Rightarrow> exn + pyobj" where
  "convert (AInt i) = Inr (PInt i)"
| "convert (AStr s) = Inr (PStr s)"
| "convert (ABool b) = Inr (PBool b)"
| "convert ANone = Inr PNone"
| "convert (AName w) = Inl (Exn ValueError ''malformed node or string'')"
| "convert (AList xs) = (case convert_list xs of Inl e \<Rightarrow> Inl e | Inr vs \<Rightarrow> Inr (PList vs))"
| "convert (ASet xs) = convert_set xs"
| "convert_list [] = Inr []"
| "convert_list (x # xs) =
     (case convert x of
        Inl e \<Rightarrow> Inl e
      | Inr v \<Rightarrow> (case convert_list xs of Inl e \<Rightarrow> Inl e | Inr vs \<Rightarrow> Inr (v # vs)))"
| "convert_set [] = not_modelled"
| "convert_set (x # xs) =
     (case convert x of
        Inl e \<Rightarrow> Inl e
      | Inr v \<Rightarrow>
          if unhashable v
          then Inl (Exn TypeError (''unhashable type: '' @ [sq] @ ''list'' @ [sq]))
          else convert_set xs)"

definition py_literal_eval :: "string \<Rightarrow> exn + pyobj" where
  "py_literal_eval s =
     (case tokenize s of
        Inl e \<Rightarrow> Inl e
      | Inr ts \<Rightarrow> (case parse_run [] Expect ts of Inl e \<Rightarrow> Inl e | Inr a \<Rightarrow> convert a))"

subsection \<open>Serialising to JSON\<close>

text \<open>
  \<^verbatim>\<open>json.dumps\<close> with its default arguments: items are separated by a comma and a space,
  and a string is written between double quotes with every character other than
  printable ASCII, the double quote and the backslash escaped (\<^verbatim>\<open>ensure_ascii\<close>).
\<close>

definition hex_char :: "nat \<Rightarrow> char" where
  "hex_char d = ''0123456789abcdef'' ! d"

definition json_escape :: "char \<Rightarrow> string" where
  "json_escape c =
     (if c = dq then [backslash, dq]
      else if c = backslash then [backslash, backslash]
      else if c = newline then [backslash, CHR ''n'']
      else if c = carriage_return then [backslash, CHR ''r'']
      else if c = tab then [backslash, CHR ''t'']
      else if c = CHR 0x08 then [backslash, CHR ''b'']
      else if c = CHR 0x0C then [backslash, CHR ''f'']
      else if is_printable c then [c]
      else [backslash, CHR ''u'', CHR ''0'', CHR ''0'',
            hex_char (code c div 16), hex_char (code c mod 16)])"

definition dumps_str :: "string \<Rightarrow> string" where
  "dumps_str s = [dq] @ concat (map json_escape s) @ [dq]"

definition str_int :: "int \<Rightarrow> string" where
  "str_int i = (if i < 0 then CHR ''-'' # str_nat (nat (- i)) else str_nat (nat i))"

fun py_json_dumps :: "pyobj \<Rightarrow> exn + string"
  and dumps_items :: "pyobj list \<Rightarrow> exn + string list" where
  "py_json_dumps (PInt i) =
     (if max_str_digits < length (str_nat (nat \<bar>i\<bar>)) then not_modelled else Inr (str_int i))"
| "py_json_dumps (PStr s) = Inr (dumps_str s)"
| "py_json_dumps (PBool b) = Inr (if b then ''true'' else ''false'')"
| "py_json_dumps PNone = Inr ''null''"
| "py_json_dumps (PList xs) =
     (case dumps_items xs of
        Inl e \<Rightarrow> Inl e
      | Inr ts \<Rightarrow> Inr (''['' @ join '', '' ts @ '']''))"
| "dumps_items [] = Inr []"
| "dumps_items (x # xs) =
     (case py_json_dumps x of
        Inl e \<Rightarrow> Inl e
      | Inr t \<Rightarrow> (case dumps_items xs of Inl e \<Rightarrow> Inl e | Inr ts \<Rightarrow> Inr (t # ts)))"

subsection \<open>Parsing JSON\<close>

text \<open>
  \<^verbatim>\<open>json.loads\<close> on the JSON texts of the fragment: arrays, integers, strings with the
  two-character escapes, \<^verbatim>\<open>true\<close>, \<^verbatim>\<open>false\<close> and \<^verbatim>\<open>null\<close>. Here the model gives a value or
  \<open>NotModelled\<close>, never an error of CPython's.
\<close>

datatype jtok = JLBrack | JRBrack | JComma | JAtom pyobj

datatype jstate = JStart | JNeg | JInt bool string | JName string | JStr string | JEsc string

definition is_json_ws :: "char \<Rightarrow> bool" where
  "is_json_ws c = (c = CHR '' '' \<or> c = tab \<or> c = newline \<or> c = carriage_return)"

definition jstart_step :: "jtok list \<Rightarrow> char \<Rightarrow> exn + (jstate \<times> jtok list)" where
  "jstart_step acc c =
     (if is_json_ws c then Inr (JStart, acc)
      else if c = CHR ''['' then Inr (JStart, JLBrack # acc)
      else if c = CHR '']'' then Inr (JStart, JRBrack # acc)
      else if c = CHR '','' then Inr (JStart, JComma # acc)
      else if c = CHR ''-'' then Inr (JNeg, acc)
      else if is_digit c then Inr (JInt False [c], acc)
      else if is_letter c then Inr (JName [c], acc)
      else if c = dq then Inr (JStr [], acc)
      else not_modelled)"

definition is_json_delim :: "char \<Rightarrow> bool" where
  "is_json_delim c = (is_json_ws c \<or> c = CHR '']'' \<or> c = CHR '','')"

definition emit_jint :: "bool \<Rightarrow> string \<Rightarrow> jtok list \<Rightarrow> exn + jtok list" where
  "emit_jint neg ds acc =
     (if max_str_digits < length ds then not_modelled
      else if 1 < length ds \<and> hd ds = CHR ''0'' then not_modelled
      else Inr (JAtom (PInt (if neg then - int (nat_of_digits ds) else int (nat_of_digits ds)))
                # acc))"

definition emit_jname :: "string \<Rightarrow> jtok list \<Rightarrow> exn + jtok list" where
  "emit_jname w acc =
     (if w = ''true'' then Inr (JAtom (PBool True) # acc)
      else if w = ''false'' then Inr (JAtom (PBool False) # acc)
      else if w = ''null'' then Inr (JAtom PNone # acc)
      else not_modelled)"

definition json_unescape :: "char \<Rightarrow> char option" where
  "json_unescape c =
     (if c = dq then Some dq
      else if c = backslash then Some backslash
      else if c = CHR ''/'' then Some (CHR ''/'')
      else if c = CHR ''b'' then Some (CHR 0x08)
      else if c = CHR ''f'' then Some (CHR 0x0C)
      else if c = CHR ''n'' then Some newline
      else if c = CHR ''r'' then Some carriage_return
      else if c = CHR ''t'' then Some tab
      else None)"

fun jlex_step :: "jstate \<Rightarrow> jtok list \<Rightarrow> char \<Rightarrow> exn + (jstate \<times> jtok list)" where
  "jlex_step JStart acc c = jstart_step acc c"
| "jlex_step JNeg acc c = (if is_digit c then Inr (JInt True [c], acc) else not_modelled)"
| "jlex_step (JInt neg ds) acc c =
     (if is_digit c then Inr (JInt neg (ds @ [c]), acc)
      else if is_json_delim c
      then (case emit_jint neg ds acc of Inl e \<Rightarrow> Inl e | Inr acc' \<Rightarrow> jstart_step acc' c)
      else not_modelled)"
| "jlex_step (JName w) acc c =
     (if is_letter c then Inr (JName (w @ [c]), acc)
      else if is_json_delim c
      then (case emit_jname w acc of Inl e \<Rightarrow> Inl e | Inr acc' \<Rightarrow> jstart_step acc' c)
      else not_modelled)"
| "jlex_step (JStr s) acc c =
     (if c = dq then Inr (JStart, JAtom (PStr s) # acc)
      else if c = backslash then Inr (JEsc s, acc)
      else if is_printable c then Inr (JStr (s @ [c]), acc)
      else not_modelled)"
| "jlex_step (JEsc s) acc c =
     (case json_unescape c of None \<Rightarrow> not_modelled | Some d \<Rightarrow> Inr (JStr (s @ [d]), acc))"

fun jlex_end :: "jstate \<Rightarrow> jtok list \<Rightarrow> exn + jtok list" where
  "jlex_end JStart acc = Inr acc"
| "jlex_end (JInt neg ds) acc = emit_jint neg ds acc"
| "jlex_end (JName w) acc = emit_jname w acc"
| "jlex_end st acc = not_modelled"

fun jlex_run :: "jstate \<Rightarrow> jtok list \<Rightarrow> string \<Rightarrow> exn + jtok list" where
  "jlex_run st acc [] = jlex_end st acc"
| "jlex_run st acc (c # cs) =
     (case jlex_step st acc c of Inl e \<Rightarrow> Inl e | Inr (st', acc') \<Rightarrow> jlex_run st' acc' cs)"

definition jtokenize :: "string \<Rightarrow> exn + jtok list" where
  "jtokenize s = (case jlex_run JStart [] s of Inl e \<Rightarrow> Inl e | Inr acc \<Rightarrow> Inr (rev acc))"

text \<open>
  The JSON parser expects a value, or the first value or the end of an array just
  opened, or has a complete value in hand. JSON has no trailing comma.
\<close>

datatype jmode = JExpect | JFirst | JHave pyobj

fun jparse_step :: "pyobj list list \<Rightarrow> jmode \<Rightarrow> jtok \<Rightarrow> exn + (pyobj list list \<times> jmode)" where
  "jparse_step (items # stk) (JHave v) JRBrack = Inr (stk, JHave (PList (items @ [v])))"
| "jparse_step (items # stk) (JHave v) JComma = Inr ((items @ [v]) # stk, JExpect)"
| "jparse_step stk (JHave v) t = not_modelled"
| "jparse_step (items # stk) JFirst JRBrack = Inr (stk, JHave (PList items))"
| "jparse_step stk m JLBrack =
     (if max_depth \<le> length stk then not_modelled else Inr ([] # stk, JFirst))"
| "jparse_step stk m (JAtom v) = Inr (stk, JHave v)"
| "jparse_step stk m t = not_modelled"

fun jparse_end :: "pyobj list list \<Rightarrow> jmode \<Rightarrow> exn + pyobj" where
  "jparse_end [] (JHave v) = Inr v"
| "jparse_end stk m = not_modelled"

fun jparse_run :: "pyobj list list \<Rightarrow> jmode \<Rightarrow> jtok list \<Rightarrow> exn + pyobj" where
  "jparse_run stk m [] = jparse_end stk m"
| "jparse_run stk m (t # ts) =
     (case jparse_step stk m t of Inl e \<Rightarrow> Inl e | Inr (stk', m') \<Rightarrow> jparse_run stk' m' ts)"

definition py_json_loads :: "string \<Rightarrow> exn + pyobj" where
  "py_json_loads s =
     (case jtokenize s of Inl e \<Rightarrow> Inl e | Inr ts \<Rightarrow> jparse_run [] JExpect ts)"

text \<open>The three models together.\<close>

definition cpython :: "(pyobj, pyobj) stdlib" where
  "cpython = \<lparr>ast_literal_eval = py_literal_eval, json_dumps = py_json_dumps,
               json_loads = py_json_loads\<rparr>"

section \<open>Notions used in the statements\<close>


text \<open>
  The data rows among the reader's results: the rows that have at least one cell. These
  are the rows \<^verbatim>\<open>csv.DictReader\<close> hands to the loop.
\<close>

definition data_rows :: "csv_events \<Rightarrow> string list list" where
  "data_rows evs = [row. Inr row \<leftarrow> evs, row \<noteq> []]"

text \<open>
  A sample file system: one file, given as the results of the reader, and no other path.
\<close>

definition sample_files :: "string \<Rightarrow> exn + csv_events" where
  "sample_files path =
     (if path = ''rows.csv''
      then Inr [Inr [''id'', ''data''], Inr [''1'', ''[1, 2]''], Inr [],
                Inr [''2'', ''abc''], Inr [''3'']]
      else Inl (Exn FileNotFoundError
        (''[Errno 2] No such file or directory: '' @ [sq] @ path @ [sq])))"











section \<open>Properties of the validator\<close>



text \<open>
  No outcome of \<^verbatim>\<open>is_valid_json\<close> carries the prefix of a JSON decode error: an exception
  of class \<^verbatim>\<open>json.JSONDecodeError\<close> is an instance of \<^verbatim>\<open>ValueError\<close>, so the second
  \<^verbatim>\<open>except\<close> clause is never reached.
\<close>

lemma instance_of_base: "isinstance e JSONDecodeError \<Longrightarrow> isinstance e ValueError"
  by (cases e; cases "cls e") (auto simp: isinstance_def)

lemma decode_clause_unreachable:
  "is_valid_json L json_str = Inr (ok, message) \<Longrightarrow>
     \<not> startswith message ''JSON decode error:''"
  using instance_of_base
  by (auto simp: is_valid_json_def startswith_def
      split: option.splits if_splits sum.splits)




text \<open>
  An exception of the literal parse that is neither a \<^verbatim>\<open>ValueError\<close> nor a \<^verbatim>\<open>SyntaxError\<close>
  is caught by no \<^verbatim>\<open>except\<close> clause of the validator: it leaves \<^verbatim>\<open>is_valid_json\<close>.
\<close>

lemma other_exception_escapes:
  assumes "s \<noteq> []"
    and "ast_literal_eval L
           (if startswith (strip s) [sq] \<and> endswith (strip s) [sq]
            then slice_1_m1 (strip s) else strip s) = Inl e"
    and "\<not> isinstance e ValueError" and "\<not> isinstance e SyntaxError"
  shows "is_valid_json L (Some s) = Inl e"
proof -
  from assms have "preprocess_json_string L s = Inl e"
    by (simp add: preprocess_json_string_def Let_def)
  with assms(1,3) instance_of_base[of e] show ?thesis
    by (auto simp: is_valid_json_def)
qed


text \<open>
  C6. \<^verbatim>\<open>is_valid_json\<close> on the empty string returns \<open>(False, "Empty string")\<close>, whatever
  the library functions are: none of them is consulted on that input.
\<close>

theorem C6_empty_string:
  "is_valid_json L (Some []) = Inr (False, ''Empty string'')"
  by (simp add: is_valid_json_def)

section \<open>Properties of the row driver\<close>

lemma data_rows_simps [simp]:
  "data_rows [] = []"
  "data_rows (Inl e # evs) = data_rows evs"
  "data_rows (Inr row # evs) = (if row = [] then data_rows evs else row # data_rows evs)"
  by (simp_all add: data_rows_def)







text \<open>
  C8. When opening the file raises \<^verbatim>\<open>FileNotFoundError\<close>, and when the header row does
  not contain the requested field name, the run prints one line, the error message,
  and nothing else: no row has been counted, no summary follows, and no exception
  leaves the function.
\<close>

theorem C8_configuration_errors:
  "(open_csv csv_file = Inl e \<and> isinstance e FileNotFoundError \<longrightarrow>
      validate_csv_json_field L open_csv csv_file field_name =
        \<lparr>good_rows = 0, bad_rows = 0,
         printed = [''Error: File '' @ [sq] @ csv_file @ [sq] @ '' not found''],
         escaped = None\<rparr>)
   \<and> (open_csv csv_file = Inr (Inr fieldnames # evs) \<and> field_name \<notin> set fieldnames \<longrightarrow>
      validate_csv_json_field L open_csv csv_file field_name =
        \<lparr>good_rows = 0, bad_rows = 0,
         printed = [''Error: Field '' @ [sq] @ field_name @ [sq] @
                    '' not found in CSV. Available fields: '' @ join '', '' fieldnames],
         escaped = None\<rparr>)"
  by (simp add: validate_csv_json_field_def handle_exc_def finish_def print_line_def)

theorem C8_witness:
  "validate_csv_json_field cpython sample_files ''missing.csv'' ''data'' =
     \<lparr>good_rows = 0, bad_rows = 0,
      printed = [''Error: File '' @ [sq] @ ''missing.csv'' @ [sq] @ '' not found''],
      escaped = None\<rparr>
   \<and> validate_csv_json_field cpython sample_files ''rows.csv'' ''payload'' =
     \<lparr>good_rows = 0, bad_rows = 0,
      printed = [''Error: Field '' @ [sq] @ ''payload'' @ [sq] @
                 '' not found in CSV. Available fields: id, data''],
      escaped = None\<rparr>"
proof -
  let ?evs = "[Inr [''1'', ''[1, 2]''], Inr [], Inr [''2'', ''abc''], Inr [''3'']]"
  let ?e = "Exn FileNotFoundError
    (''[Errno 2] No such file or directory: '' @ [sq] @ ''missing.csv'' @ [sq])"
  have a: "sample_files ''missing.csv'' = Inl ?e \<and> isinstance ?e FileNotFoundError"
    by (simp add: sample_files_def isinstance_def)
  have b: "sample_files ''rows.csv'' = Inr (Inr [''id'', ''data''] # ?evs) \<and>
      ''payload'' \<notin> set [''id'', ''data'']"
    by (simp add: sample_files_def)
  from C8_configuration_errors[of sample_files "''missing.csv''" ?e cpython "''data''",
      THEN conjunct1, rule_format, OF a]
    C8_configuration_errors[of sample_files "''rows.csv''" _ cpython "''payload''"
      "[''id'', ''data'']" ?evs, THEN conjunct2, rule_format, OF b]
  show ?thesis by simp
qed





section \<open>Properties of the library model\<close>

subsection \<open>Decimal digits\<close>










subsection \<open>Character classes\<close>






subsection \<open>Tokenizing the text of a literal\<close>















subsection \<open>Parsing and evaluating the tokens of a literal\<close>





subsection \<open>Serialising\<close>


subsection \<open>Reading the JSON text back\<close>





















subsection \<open>What the validator does with the text of a literal\<close>















text \<open>
  C1. The JSON texts \<^verbatim>\<open>true\<close>, \<^verbatim>\<open>null\<close> and \<^verbatim>\<open>[1, false]\<close> are declared invalid: the three
  JSON constants are names to the literal parse.
\<close>

theorem C1_json_constants_rejected:
  "is_valid_json cpython (Some ''true'') =
     Inr (False, ''Preprocessing error: Failed to process string: malformed node or string'')
   \<and> is_valid_json cpython (Some ''null'') =
     Inr (False, ''Preprocessing error: Failed to process string: malformed node or string'')
   \<and> is_valid_json cpython (Some ''[1, false]'') =
     Inr (False, ''Preprocessing error: Failed to process string: malformed node or string'')
   \<and> py_json_loads ''[1, false]'' = Inr (PList [PInt 1, PBool False])"
  by code_simp

text \<open>
  C4. The strict JSON text \<^verbatim>\<open>[true, null]\<close> parses to a value, but its normalisation
  raises, so there is no normalised form to parse.
\<close>

theorem C4_normalisation_fails_on_json:
  "py_json_loads ''[true, null]'' = Inr (PList [PBool True, PNone])
   \<and> preprocess_json_string cpython ''[true, null]'' =
       Inl (Exn ValueError ''Failed to process string: malformed node or string'')"
  by code_simp

end
